theory Spec2Isabelle
  imports
    Complex_Main
    "HOL-Library.Char_ord"
    "HOL-Library.List_Lexorder"
    "HOL-Library.AList"
    "HOL-Library.Sublist"
    "HOL-Library.Log_Nat"
begin

section \<open>The climate store\<close>

text \<open>
  \<^verbatim>\<open>app.py\<close> reflects two tables of \<^verbatim>\<open>hawaii.sqlite\<close>: \<^verbatim>\<open>station\<close> and \<^verbatim>\<open>measurement\<close>.
  A row of \<^verbatim>\<open>measurement\<close> carries the columns the handlers read: the station code, the
  date (a TEXT column holding \<^verbatim>\<open>YYYY-MM-DD\<close>), the nullable precipitation and the observed
  temperature. A stored number is a double; the model holds its exact value, a
  rational.
\<close>

record station_row =
  s_station :: string
  s_name :: string

record measurement =
  m_station :: string
  m_date :: string
  m_prcp :: "rat option"
  m_tobs :: rat

text \<open>
  A double that is not NaN: a finite value or an infinity.
\<close>

datatype double = Finite rat | PosInf | NegInf

text \<open>
  The module-level \<^verbatim>\<open>engine\<close> is the store. Each table is the list of its rows in the
  order a scan returns them. Two things the queries leave to the database engine are
  fields of the store as well:
  \<^item> \<^verbatim>\<open>ORDER BY count(...) DESC\<close> does not say which of several stations with the same
    count comes first; \<open>tie_rank\<close> is the rank the engine gives each station code, and
    stations with equal counts come in ascending rank;
  \<^item> \<^verbatim>\<open>avg\<close> adds and divides doubles, and how the sum is rounded depends on the build of
    SQLite; \<open>avg_double\<close> is the double the engine computes for the values of one or more
    rows, taken in the order of the scan.
\<close>

record store =
  station_tbl :: "station_row list"
  measurement_tbl :: "measurement list"
  tie_rank :: "string \<Rightarrow> nat"
  avg_double :: "rat list \<Rightarrow> double"

text \<open>
  The process state: the store behind \<^verbatim>\<open>engine\<close> and the number of sessions that were
  opened on it and not closed yet.
\<close>

record app_state =
  engine :: store
  open_sessions :: nat

definition Session :: "app_state \<Rightarrow> app_state" where
  "Session s = s\<lparr>open_sessions := open_sessions s + 1\<rparr>"

definition session_close :: "app_state \<Rightarrow> app_state" where
  "session_close s = s\<lparr>open_sessions := open_sessions s - 1\<rparr>"

datatype py_error = TypeError | ValueError | IndexError | OverflowError

datatype json =
    JNull
  | JNum rat
  | JStr string
  | JArr "json list"
  | JObj "(string \<times> json) list"
  | JInfinity
  | JNegInfinity

datatype response = Html string | Json json

type_synonym outcome = "(py_error + response) \<times> app_state"

section \<open>Python's datetime\<close>

text \<open>
  \<^verbatim>\<open>datetime.strptime(s, "%Y-%m-%d")\<close> yields a datetime at midnight, so a datetime is its
  calendar day. The calendar arithmetic follows \<^verbatim>\<open>Lib/_pydatetime.py\<close>.
\<close>

record datetime =
  year :: int
  month :: int
  day :: int

definition DAYS_IN_MONTH :: "int list" where
  "DAYS_IN_MONTH = [-1, 31, 28, 31, 30, 31, 30, 31, 31, 30, 31, 30, 31]"

definition DAYS_BEFORE_MONTH :: "int list" where
  "DAYS_BEFORE_MONTH = [-1, 0, 31, 59, 90, 120, 151, 181, 212, 243, 273, 304, 334]"

definition is_leap :: "int \<Rightarrow> bool" where
  "is_leap y = (y mod 4 = 0 \<and> (if y mod 100 = 0 then y mod 400 = 0 else True))"

definition days_before_year :: "int \<Rightarrow> int" where
  "days_before_year y = (y - 1) * 365 + (y - 1) div 4 - (y - 1) div 100 + (y - 1) div 400"

definition days_in_month :: "int \<Rightarrow> int \<Rightarrow> int" where
  "days_in_month y m = (if m = 2 \<and> is_leap y then 29 else DAYS_IN_MONTH ! nat m)"

definition days_before_month :: "int \<Rightarrow> int \<Rightarrow> int" where
  "days_before_month y m =
     DAYS_BEFORE_MONTH ! nat m + (if m > 2 \<and> is_leap y then 1 else 0)"

definition ymd2ord :: "int \<Rightarrow> int \<Rightarrow> int \<Rightarrow> int" where
  "ymd2ord y m d = days_before_year y + days_before_month y m + d"

definition ord2ymd :: "int \<Rightarrow> datetime" where
  "ord2ymd n0 =
     (let n = n0 - 1;
          n400 = n div 146097; n = n mod 146097;
          n100 = n div 36524; n = n mod 36524;
          n4 = n div 1461; n = n mod 1461;
          n1 = n div 365; n = n mod 365;
          y = n400 * 400 + 1 + n100 * 100 + n4 * 4 + n1
      in if n1 = 4 \<or> n100 = 4 then \<lparr>year = y - 1, month = 12, day = 31\<rparr>
         else
           (let leapyear = (n1 = 3 \<and> (if n4 = 24 then n100 = 3 else True));
                mon = (n + 50) div 32;
                preceding = DAYS_BEFORE_MONTH ! nat mon + (if mon > 2 \<and> leapyear then 1 else 0)
            in if preceding > n
               then \<lparr>year = y, month = mon - 1,
                      day = n - (preceding
                                 - (DAYS_IN_MONTH ! nat (mon - 1)
                                    + (if mon - 1 = 2 \<and> leapyear then 1 else 0))) + 1\<rparr>
               else \<lparr>year = y, month = mon, day = n - preceding + 1\<rparr>))"

text \<open>
  \<^verbatim>\<open>dt - timedelta(days=k)\<close>: the ordinal of the day moves back by \<open>k\<close>; a result before
  day 1 of year 1 or after the last day of year 9999 raises \<^verbatim>\<open>OverflowError\<close>.
\<close>

definition MAXORDINAL :: int where
  "MAXORDINAL = 3652059"

definition minus_days :: "datetime \<Rightarrow> int \<Rightarrow> py_error + datetime" where
  "minus_days dt k =
     (let n = ymd2ord (year dt) (month dt) (day dt) - k
      in if 0 < n \<and> n \<le> MAXORDINAL then Inr (ord2ymd n) else Inl OverflowError)"

subsection \<open>Parsing with the format \<^verbatim>\<open>%Y-%m-%d\<close>\<close>

definition is_digit :: "char \<Rightarrow> bool" where
  "is_digit c = (CHR ''0'' \<le> c \<and> c \<le> CHR ''9'')"

definition digit_val :: "char \<Rightarrow> int" where
  "digit_val c = int (of_char c) - 48"

definition digit_char :: "int \<Rightarrow> char" where
  "digit_char n = ''0123456789'' ! nat n"

text \<open>
  \<^verbatim>\<open>_strptime\<close> compiles the format to the regular expression
  \<^verbatim>\<open>(\d\d\d\d)-(1[0-2]|0[1-9]|[1-9])-(3[0-1]|[1-2]\d|0[1-9]|[1-9]| [1-9])\<close>, matches it at the
  start of the string and refuses a string with characters left over. The three functions
  below match the year, the month with the hyphen after it, and the day up to the end of
  the string (ASCII digits only).
\<close>

fun match_Y :: "string \<Rightarrow> (int \<times> string) option" where
  "match_Y (a # b # c # d # h # rest) =
     (if is_digit a \<and> is_digit b \<and> is_digit c \<and> is_digit d \<and> h = CHR ''-''
      then Some (1000 * digit_val a + 100 * digit_val b + 10 * digit_val c + digit_val d, rest)
      else None)"
| "match_Y _ = None"

fun match_m :: "string \<Rightarrow> (int \<times> string) option" where
  "match_m (a # b # c # rest) =
     (if a = CHR ''1'' \<and> CHR ''0'' \<le> b \<and> b \<le> CHR ''2'' \<and> c = CHR ''-''
        then Some (10 + digit_val b, rest)
      else if a = CHR ''0'' \<and> CHR ''1'' \<le> b \<and> b \<le> CHR ''9'' \<and> c = CHR ''-''
        then Some (digit_val b, rest)
      else if CHR ''1'' \<le> a \<and> a \<le> CHR ''9'' \<and> b = CHR ''-''
        then Some (digit_val a, c # rest)
      else None)"
| "match_m [a, b] =
     (if CHR ''1'' \<le> a \<and> a \<le> CHR ''9'' \<and> b = CHR ''-'' then Some (digit_val a, []) else None)"
| "match_m _ = None"

fun match_d :: "string \<Rightarrow> int option" where
  "match_d [a, b] =
     (if a = CHR ''3'' \<and> CHR ''0'' \<le> b \<and> b \<le> CHR ''1'' then Some (30 + digit_val b)
      else if CHR ''1'' \<le> a \<and> a \<le> CHR ''2'' \<and> is_digit b
        then Some (10 * digit_val a + digit_val b)
      else if a = CHR ''0'' \<and> CHR ''1'' \<le> b \<and> b \<le> CHR ''9'' then Some (digit_val b)
      else if a = CHR '' '' \<and> CHR ''1'' \<le> b \<and> b \<le> CHR ''9'' then Some (digit_val b)
      else None)"
| "match_d [a] = (if CHR ''1'' \<le> a \<and> a \<le> CHR ''9'' then Some (digit_val a) else None)"
| "match_d _ = None"

text \<open>
  \<^verbatim>\<open>strptime(None, ...)\<close> raises \<^verbatim>\<open>TypeError\<close>; a string that does not match, year 0 and
  a day the month does not have raise \<^verbatim>\<open>ValueError\<close>.
\<close>

definition strptime :: "string option \<Rightarrow> py_error + datetime" where
  "strptime arg =
     (case arg of
        None \<Rightarrow> Inl TypeError
      | Some s \<Rightarrow>
          (case match_Y s of
             None \<Rightarrow> Inl ValueError
           | Some (y, s1) \<Rightarrow>
               (case match_m s1 of
                  None \<Rightarrow> Inl ValueError
                | Some (m, s2) \<Rightarrow>
                    (case match_d s2 of
                       None \<Rightarrow> Inl ValueError
                     | Some d \<Rightarrow>
                         if y < 1 \<or> days_in_month y m < d then Inl ValueError
                         else Inr \<lparr>year = y, month = m, day = d\<rparr>))))"

section \<open>What the store computes\<close>

text \<open>
  Comparing the TEXT column \<^verbatim>\<open>date\<close> with a Python string compares the two texts byte
  by byte (SQLite's BINARY collation): the lexicographic order of \<^typ>\<open>string\<close>.

  Comparing it with a Python \<^verbatim>\<open>datetime\<close> first turns the datetime into text: SQLAlchemy
  types the bound value as \<^verbatim>\<open>DateTime\<close>, and its SQLite dialect renders a datetime as
  \<^verbatim>\<open>%04d-%02d-%02d %02d:%02d:%02d.%06d\<close>. The year of a datetime is between 1 and 9999
  and its month and day have at most two digits, so the fields are printed digit by digit.
\<close>

definition fmt02 :: "int \<Rightarrow> string" where
  "fmt02 n = [digit_char (n div 10 mod 10), digit_char (n mod 10)]"

definition fmt04 :: "int \<Rightarrow> string" where
  "fmt04 n = [digit_char (n div 1000 mod 10), digit_char (n div 100 mod 10),
              digit_char (n div 10 mod 10), digit_char (n mod 10)]"

definition isoformat_date :: "datetime \<Rightarrow> string" where
  "isoformat_date dt = fmt04 (year dt) @ ''-'' @ fmt02 (month dt) @ ''-'' @ fmt02 (day dt)"

definition bind_datetime :: "datetime \<Rightarrow> string" where
  "bind_datetime dt = isoformat_date dt @ '' 00:00:00.000000''"

text \<open>
  The aggregates \<^verbatim>\<open>min\<close>, \<^verbatim>\<open>max\<close> and \<^verbatim>\<open>avg\<close> are NULL (Python's \<^verbatim>\<open>None\<close>) over no
  rows.
\<close>

fun sql_max :: "'a::linorder list \<Rightarrow> 'a option" where
  "sql_max [] = None"
| "sql_max (x # xs) = Some (fold max xs x)"

fun sql_min :: "'a::linorder list \<Rightarrow> 'a option" where
  "sql_min [] = None"
| "sql_min (x # xs) = Some (fold min xs x)"

definition sql_avg :: "store \<Rightarrow> rat list \<Rightarrow> double option" where
  "sql_avg e xs = (if xs = [] then None else Some (avg_double e xs))"

text \<open>
  \<^verbatim>\<open>SELECT station, count(station) ... GROUP BY station\<close>: one row per station code that
  occurs, with the number of its measurements.
\<close>

definition group_by_station :: "measurement list \<Rightarrow> (string \<times> nat) list" where
  "group_by_station ms =
     map (\<lambda>st. (st, length (filter (\<lambda>m. m_station m = st) ms))) (remdups (map m_station ms))"

text \<open>
  \<^verbatim>\<open>ORDER BY count(station) DESC\<close> on the grouped rows: by descending count, rows with
  equal counts by the engine's rank of their station (\<open>sort_key\<close> keeps the order of rows
  with equal keys, so the second sort keeps the ranks in order).
\<close>

definition order_by_count_desc :: "store \<Rightarrow> (string \<times> nat) list \<Rightarrow> (string \<times> nat) list" where
  "order_by_count_desc e groups =
     sort_key (\<lambda>g. - int (snd g)) (sort_key (\<lambda>g. tie_rank e (fst g)) groups)"

section \<open>What Python and Flask compute\<close>

text \<open>
  The double nearest to a rational number (IEEE 754 binary64, round to nearest, a tie to
  the even significand): with \<open>2 ^ e \<le> \<bar>q\<bar> < 2 ^ (e + 1)\<close> the doubles around \<open>q\<close> are
  the multiples of \<open>2 ^ (e - 52)\<close>, of \<open>2 ^ (- 1074)\<close> for the subnormal ones, and a result
  of magnitude \<open>2 ^ 1024\<close> or more is an infinity.
\<close>

definition round_half_even :: "rat \<Rightarrow> int" where
  "round_half_even q =
     (let f = \<lfloor>q\<rfloor>; r = q - of_int f
      in if r < 1 / 2 then f else if 1 / 2 < r then f + 1 else if even f then f else f + 1)"

definition pow2 :: "int \<Rightarrow> rat" where
  "pow2 e = (if 0 \<le> e then 2 ^ nat e else 1 / 2 ^ nat (- e))"

definition floor_log2 :: "rat \<Rightarrow> int" where
  "floor_log2 q = (if 1 \<le> q then bitlen \<lfloor>q\<rfloor> - 1 else - bitlen (\<lceil>1 / q\<rceil> - 1))"

definition nearest_double :: "rat \<Rightarrow> double" where
  "nearest_double q =
     (if q = 0 then Finite 0
      else
        (let e = max (floor_log2 \<bar>q\<bar>) (- 1022);
             u = pow2 (e - 52);
             r = of_int (round_half_even (q / u)) * u
         in if pow2 1024 \<le> \<bar>r\<bar> then (if 0 < q then PosInf else NegInf) else Finite r))"

text \<open>
  \<^verbatim>\<open>round(x, 2)\<close> raises \<^verbatim>\<open>TypeError\<close> on \<^verbatim>\<open>None\<close> and returns an infinity as it is. A
  finite double is rounded in two steps: its exact value to the nearest multiple of
  0.01 (a tie to the even one), and that decimal number to the nearest double.
\<close>

definition round_2dp :: "rat \<Rightarrow> rat" where
  "round_2dp q = of_int (round_half_even (q * 100)) / 100"

definition round2 :: "double option \<Rightarrow> py_error + double" where
  "round2 x =
     (case x of
        None \<Rightarrow> Inl TypeError
      | Some (Finite q) \<Rightarrow> Inr (nearest_double (round_2dp q))
      | Some PosInf \<Rightarrow> Inr PosInf
      | Some NegInf \<Rightarrow> Inr NegInf)"

text \<open>
  A dict, built from its key/value pairs in order: a key that is already there keeps its
  place and takes the new value. \<^verbatim>\<open>jsonify\<close> writes a dict with its keys sorted (Flask's
  default \<^verbatim>\<open>sort_keys\<close>), \<^verbatim>\<open>None\<close> as \<^verbatim>\<open>null\<close>, a finite float as the decimal text that
  identifies it (the model keeps the float's value) and an infinite one as
  \<^verbatim>\<open>Infinity\<close> or \<^verbatim>\<open>-Infinity\<close>.
\<close>

definition py_dict :: "(string \<times> json) list \<Rightarrow> (string \<times> json) list" where
  "py_dict kvs = foldl (\<lambda>d kv. AList.update (fst kv) (snd kv) d) [] kvs"

definition json_dict :: "(string \<times> json) list \<Rightarrow> json" where
  "json_dict d = JObj (sort_key fst d)"

definition json_num :: "rat option \<Rightarrow> json" where
  "json_num x = (case x of None \<Rightarrow> JNull | Some q \<Rightarrow> JNum q)"

definition json_double :: "double \<Rightarrow> json" where
  "json_double x =
     (case x of Finite q \<Rightarrow> JNum q | PosInf \<Rightarrow> JInfinity | NegInf \<Rightarrow> JNegInfinity)"

definition jsonify :: "json \<Rightarrow> response" where
  "jsonify v = Json v"

section \<open>The request handlers\<close>

definition nl :: string where
  "nl = [CHR 0x0A]"

definition dq :: string where
  "dq = [CHR 0x22]"

definition homepage_text :: string where
  "homepage_text =
     nl
     @ ''        <h1>Hawaii Climate Analysis</h1>'' @ nl
     @ ''        <hr/>'' @ nl
     @ ''        <h2> Available Routes </h2>'' @ nl
     @ ''        <ul>'' @ nl
     @ ''            <li><a href='' @ dq @ ''/'' @ dq @ ''>Homepage</a></li>'' @ nl
     @ ''            <li><a href='' @ dq @ ''/api/v1.0/precipitation'' @ dq
         @ ''>Precipitation</a></li>'' @ nl
     @ ''            <li><a href='' @ dq @ ''/api/v1.0/stations'' @ dq
         @ ''>All Stations</a></li>'' @ nl
     @ ''            <li><a href='' @ dq @ ''/api/v1.0/tobs'' @ dq
         @ ''>Temperature observations for the most active station</a></li>'' @ nl
     @ ''            <li><a href='' @ dq @ ''/api/v1.0/start/2017-01-01'' @ dq
         @ ''>Calculate min, avg, and max temperatures for the dates from the start date to the end of the dataset</a></li>'' @ nl
     @ ''            <li><a href='' @ dq @ ''/api/v1.0/end/2016-01-01/2017-12-12'' @ dq
         @ ''>Calculate min, avg, and max temperatures for the dates from the start date to the end date, inclusive.</a></li>'' @ nl
     @ ''        </ul>'' @ nl
     @ ''    ''"

definition homepage :: "app_state \<Rightarrow> outcome" where
  "homepage s = (Inr (Html homepage_text), s)"

definition precipitation :: "app_state \<Rightarrow> outcome" where
  "precipitation s0 =
     (let s1 = Session s0;
          ms = measurement_tbl (engine s1);
          recent_date = sql_max (map m_date ms)
      in case strptime recent_date of
           Inl e \<Rightarrow> (Inl e, s1)
         | Inr recent_dt \<Rightarrow>
             (case minus_days recent_dt 365 of
                Inl e \<Rightarrow> (Inl e, s1)
              | Inr last_year_date \<Rightarrow>
                  (let data_last_year =
                         map (\<lambda>m. (m_date m, m_prcp m))
                           (filter (\<lambda>m. bind_datetime last_year_date \<le> m_date m) ms);
                       s2 = session_close s1
                   in (Inr (jsonify (json_dict (py_dict
                               (map (\<lambda>(date, prcp). (date, json_num prcp)) data_last_year)))),
                       s2))))"

definition all_stations :: "app_state \<Rightarrow> outcome" where
  "all_stations s0 =
     (let s1 = Session s0;
          stations = map (\<lambda>r. [s_station r]) (station_tbl (engine s1));
          s2 = session_close s1;
          stations = map hd stations
      in (Inr (jsonify (JArr (map JStr stations))), s2))"

definition tobs :: "app_state \<Rightarrow> outcome" where
  "tobs s0 =
     (let s1 = Session s0;
          ms = measurement_tbl (engine s1);
          most_active_stations = order_by_count_desc (engine s1) (group_by_station ms)
      in case most_active_stations of
           [] \<Rightarrow> (Inl IndexError, s1)
         | row # _ \<Rightarrow>
             (let most_active_station_id = fst row;
                  most_recent_date =
                    sql_max (map m_date (filter (\<lambda>m. m_station m = most_active_station_id) ms))
              in case strptime most_recent_date of
                   Inl e \<Rightarrow> (Inl e, s1)
                 | Inr most_recent_dt \<Rightarrow>
                     (case minus_days most_recent_dt 365 of
                        Inl e \<Rightarrow> (Inl e, s1)
                      | Inr last_year_date \<Rightarrow>
                          (let temperature_data =
                                 map (\<lambda>m. (m_date m, m_tobs m))
                                   (filter (\<lambda>m. m_station m = most_active_station_id
                                              \<and> bind_datetime last_year_date \<le> m_date m) ms);
                               s2 = session_close s1;
                               data = map (\<lambda>(date, t). json_dict (py_dict
                                            [(''date'', JStr date), (''temperature'', JNum t)]))
                                        temperature_data
                           in (Inr (jsonify (JArr data)), s2)))))"

definition start_date :: "string \<Rightarrow> app_state \<Rightarrow> outcome" where
  "start_date start s0 =
     (let s1 = Session s0;
          rows = filter (\<lambda>m. start \<le> m_date m) (measurement_tbl (engine s1));
          results = [(sql_min (map m_tobs rows), sql_avg (engine s1) (map m_tobs rows),
                      sql_max (map m_tobs rows))];
          s2 = session_close s1
      in case round2 (fst (snd (hd results))) of
           Inl e \<Rightarrow> (Inl e, s2)
         | Inr avg \<Rightarrow>
             (Inr (jsonify (json_dict (py_dict
                     [(''min'', json_num (fst (hd results))),
                      (''avg'', json_double avg),
                      (''max'', json_num (snd (snd (hd results)))),
                      (''start'', JStr start)]))),
              s2))"

definition start_end_date :: "string \<Rightarrow> string \<Rightarrow> app_state \<Rightarrow> outcome" where
  "start_end_date start end s0 =
     (let s1 = Session s0;
          rows = filter (\<lambda>m. m_date m \<le> end)
                   (filter (\<lambda>m. start \<le> m_date m) (measurement_tbl (engine s1)));
          results = [(sql_min (map m_tobs rows), sql_avg (engine s1) (map m_tobs rows),
                      sql_max (map m_tobs rows))];
          s2 = session_close s1
      in case round2 (fst (snd (hd results))) of
           Inl e \<Rightarrow> (Inl e, s2)
         | Inr avg \<Rightarrow>
             (Inr (jsonify (json_dict (py_dict
                     [(''min'', json_num (fst (hd results))),
                      (''avg'', json_double avg),
                      (''max'', json_num (snd (snd (hd results)))),
                      (''start'', JStr start),
                      (''end'', JStr end)]))),
              s2))"



section \<open>The data model's invariants\<close>

text \<open>
  A well-formed date is a zero-padded \<^verbatim>\<open>YYYY-MM-DD\<close> text that names a day of the calendar.
\<close>

fun iso_date :: "string \<Rightarrow> bool" where
  "iso_date [y1, y2, y3, y4, h1, m1, m2, h2, d1, d2] =
     (is_digit y1 \<and> is_digit y2 \<and> is_digit y3 \<and> is_digit y4 \<and> h1 = CHR ''-''
      \<and> is_digit m1 \<and> is_digit m2 \<and> h2 = CHR ''-'' \<and> is_digit d1 \<and> is_digit d2
      \<and> 1 \<le> 1000 * digit_val y1 + 100 * digit_val y2 + 10 * digit_val y3 + digit_val y4
      \<and> 1 \<le> 10 * digit_val m1 + digit_val m2 \<and> 10 * digit_val m1 + digit_val m2 \<le> 12
      \<and> 1 \<le> 10 * digit_val d1 + digit_val d2
      \<and> 10 * digit_val d1 + digit_val d2
          \<le> days_in_month (1000 * digit_val y1 + 100 * digit_val y2 + 10 * digit_val y3 + digit_val y4)
               (10 * digit_val m1 + digit_val m2))"
| "iso_date _ = False"

text \<open>
  What \<^verbatim>\<open>ORDER BY count(...) DESC\<close> promises about the grouped rows, whatever the engine
  does with equal counts: the same rows, counts descending.
\<close>

definition ordered_desc :: "(string \<times> nat) list \<Rightarrow> (string \<times> nat) list \<Rightarrow> bool" where
  "ordered_desc groups res =
     (length res = length groups \<and> set res = set groups
      \<and> sorted_wrt (\<lambda>a b. snd b \<le> snd a) res)"


section \<open>Each route's answer as a function of what the store returns\<close>


section \<open>Example stores\<close>

text \<open>
  An engine whose average is the double nearest to the exact mean. (SQLite computes
  this double whenever the sum of the values is exact, as it is for the whole and half
  degrees below; the division rounds once.)
\<close>

definition rounded_mean :: "rat list \<Rightarrow> double" where
  "rounded_mean xs = nearest_double (sum_list xs / of_nat (length xs))"

definition empty_app :: app_state where
  "empty_app =
     \<lparr>engine = \<lparr>station_tbl = [], measurement_tbl = [], tie_rank = (\<lambda>st. 0),
                avg_double = rounded_mean\<rparr>,
      open_sessions = 0\<rparr>"

text \<open>
  Two stations; the first has a measurement exactly 365 days before its (and the store's)
  most recent one.
\<close>

definition year_app :: app_state where
  "year_app =
     \<lparr>engine =
        \<lparr>station_tbl =
           [\<lparr>s_station = ''USC00519281'', s_name = ''WAIHEE''\<rparr>,
            \<lparr>s_station = ''USC00519397'', s_name = ''WAIKIKI''\<rparr>],
         measurement_tbl =
           [\<lparr>m_station = ''USC00519281'', m_date = ''2016-08-22'', m_prcp = Some 2, m_tobs = 75\<rparr>,
            \<lparr>m_station = ''USC00519281'', m_date = ''2016-08-23'', m_prcp = Some (3 / 2), m_tobs = 77\<rparr>,
            \<lparr>m_station = ''USC00519397'', m_date = ''2016-08-24'', m_prcp = Some (1 / 2), m_tobs = 79\<rparr>,
            \<lparr>m_station = ''USC00519281'', m_date = ''2016-08-24'', m_prcp = None, m_tobs = 80\<rparr>,
            \<lparr>m_station = ''USC00519281'', m_date = ''2017-08-23'', m_prcp = Some (1 / 4), m_tobs = 82\<rparr>],
         tie_rank = (\<lambda>st. 0),
         avg_double = rounded_mean\<rparr>,
      open_sessions = 0\<rparr>"

text \<open>
  The station table names one station code twice.
\<close>

definition repeat_app :: app_state where
  "repeat_app =
     \<lparr>engine =
        \<lparr>station_tbl =
           [\<lparr>s_station = ''USC00519397'', s_name = ''WAIKIKI''\<rparr>,
            \<lparr>s_station = ''USC00519281'', s_name = ''WAIHEE''\<rparr>,
            \<lparr>s_station = ''USC00519397'', s_name = ''WAIKIKI 717.2''\<rparr>],
         measurement_tbl = [],
         tie_rank = (\<lambda>st. 0),
         avg_double = rounded_mean\<rparr>,
      open_sessions = 0\<rparr>"





section \<open>Sessions and the shape of each handler\<close>

lemma engine_Session: "engine (Session s) = engine s"
  by (simp add: Session_def)

lemma engine_session_close: "engine (session_close s) = engine s"
  by (simp add: session_close_def)

lemma session_round_trip: "session_close (Session s) = s"
  by (simp add: session_close_def Session_def)

lemma obs_dict:
  "json_dict (py_dict [(''date'', a), (''temperature'', b)])
   = JObj [(''date'', a), (''temperature'', b)]"
  by (simp add: json_dict_def py_dict_def)

lemma summary_dict4:
  "json_dict (py_dict [(''min'', a), (''avg'', b), (''max'', c), (''start'', d)])
   = JObj [(''avg'', b), (''max'', c), (''min'', a), (''start'', d)]"
  by (simp add: json_dict_def py_dict_def)

lemma summary_dict5:
  "json_dict (py_dict [(''min'', a), (''avg'', b), (''max'', c), (''start'', d), (''end'', e)])
   = JObj [(''avg'', b), (''end'', e), (''max'', c), (''min'', a), (''start'', d)]"
  by (simp add: json_dict_def py_dict_def)

text \<open>
  Each handler with its local bindings substituted: which session state every exit
  leaves behind is read off directly.
\<close>

lemma precipitation_unfold:
  "precipitation s =
     (case strptime (sql_max (map m_date (measurement_tbl (engine s)))) of
        Inl e \<Rightarrow> (Inl e, Session s)
      | Inr recent \<Rightarrow>
          (case minus_days recent 365 of
             Inl e \<Rightarrow> (Inl e, Session s)
           | Inr cutoff \<Rightarrow>
               (Inr (Json (json_dict (py_dict
                  (map (\<lambda>m. (m_date m, json_num (m_prcp m)))
                     (filter (\<lambda>m. bind_datetime cutoff \<le> m_date m)
                        (measurement_tbl (engine s))))))), s)))"
  unfolding precipitation_def Let_def engine_Session session_round_trip jsonify_def
  by (simp add: comp_def case_prod_beta cong: sum.case_cong)

lemma tobs_unfold:
  "tobs s =
     (case order_by_count_desc (engine s) (group_by_station (measurement_tbl (engine s))) of
        [] \<Rightarrow> (Inl IndexError, Session s)
      | row # rest \<Rightarrow>
          (case strptime (sql_max (map m_date
                   (filter (\<lambda>m. m_station m = fst row) (measurement_tbl (engine s))))) of
             Inl e \<Rightarrow> (Inl e, Session s)
           | Inr recent \<Rightarrow>
               (case minus_days recent 365 of
                  Inl e \<Rightarrow> (Inl e, Session s)
                | Inr cutoff \<Rightarrow>
                    (Inr (Json (JArr
                       (map (\<lambda>m. JObj [(''date'', JStr (m_date m)),
                                        (''temperature'', JNum (m_tobs m))])
                          (filter (\<lambda>m. m_station m = fst row
                                     \<and> bind_datetime cutoff \<le> m_date m)
                             (measurement_tbl (engine s)))))), s))))"
  unfolding tobs_def Let_def engine_Session session_round_trip jsonify_def obs_dict
  by (simp add: comp_def case_prod_beta cong: sum.case_cong list.case_cong)

lemma all_stations_unfold:
  "all_stations s =
     (Inr (Json (JArr (map (\<lambda>r. JStr (s_station r)) (station_tbl (engine s))))), s)"
  by (simp add: all_stations_def Let_def engine_Session session_round_trip jsonify_def comp_def)

lemma window_filter:
  "filter (\<lambda>m. m_date m \<le> end) (filter (\<lambda>m. start \<le> m_date m) ms)
   = filter (\<lambda>m. start \<le> m_date m \<and> m_date m \<le> end) ms"
  by (simp add: conj_commute)

lemma start_date_unfold:
  "start_date start s =
     (case round2 (sql_avg (engine s)
             (map m_tobs (filter (\<lambda>m. start \<le> m_date m) (measurement_tbl (engine s))))) of
        Inl e \<Rightarrow> (Inl e, s)
      | Inr avg \<Rightarrow>
          (Inr (Json (JObj
             [(''avg'', json_double avg),
              (''max'', json_num (sql_max (map m_tobs
                           (filter (\<lambda>m. start \<le> m_date m) (measurement_tbl (engine s)))))),
              (''min'', json_num (sql_min (map m_tobs
                           (filter (\<lambda>m. start \<le> m_date m) (measurement_tbl (engine s)))))),
              (''start'', JStr start)])), s))"
  unfolding start_date_def Let_def engine_Session session_round_trip jsonify_def summary_dict4
  by (simp cong: sum.case_cong)

lemma start_end_date_unfold:
  "start_end_date start end s =
     (case round2 (sql_avg (engine s)
             (map m_tobs (filter (\<lambda>m. start \<le> m_date m \<and> m_date m \<le> end)
                            (measurement_tbl (engine s))))) of
        Inl e \<Rightarrow> (Inl e, s)
      | Inr avg \<Rightarrow>
          (Inr (Json (JObj
             [(''avg'', json_double avg),
              (''end'', JStr end),
              (''max'', json_num (sql_max (map m_tobs
                           (filter (\<lambda>m. start \<le> m_date m \<and> m_date m \<le> end)
                              (measurement_tbl (engine s)))))),
              (''min'', json_num (sql_min (map m_tobs
                           (filter (\<lambda>m. start \<le> m_date m \<and> m_date m \<le> end)
                              (measurement_tbl (engine s)))))),
              (''start'', JStr start)])), s))"
  unfolding start_end_date_def Let_def engine_Session session_round_trip jsonify_def
    summary_dict5 window_filter
  by (simp cong: sum.case_cong)

section \<open>Aggregates over the rows of a summary route\<close>

lemma sql_max_Max: "xs \<noteq> [] \<Longrightarrow> sql_max xs = Some (Max (set xs))"
proof (cases xs)
  case (Cons a as)
  then show ?thesis using Max.set_eq_fold [of a as] by simp
qed simp

lemma sql_min_Min: "xs \<noteq> [] \<Longrightarrow> sql_min xs = Some (Min (set xs))"
proof (cases xs)
  case (Cons a as)
  then show ?thesis using Min.set_eq_fold [of a as] by simp
qed simp

lemma round2_double: "\<exists>v. round2 (Some x) = Inr v"
  by (cases x) (simp_all add: round2_def)

lemma start_date_no_rows:
  assumes "filter (\<lambda>m. start \<le> m_date m) (measurement_tbl (engine s)) = []"
  shows "start_date start s = (Inl TypeError, s)"
  unfolding start_date_unfold assms by (simp add: sql_avg_def round2_def)

lemma start_end_date_no_rows:
  assumes "filter (\<lambda>m. start \<le> m_date m \<and> m_date m \<le> end) (measurement_tbl (engine s)) = []"
  shows "start_end_date start end s = (Inl TypeError, s)"
  unfolding start_end_date_unfold assms by (simp add: sql_avg_def round2_def)

text \<open>
  With rows in the window, the start/end route answers with the least and the greatest
  temperature of exactly these rows, with \<^verbatim>\<open>round(avg, 2)\<close> of the average the engine
  computes for them, and with both path parameters.
\<close>

lemma start_end_date_rows:
  assumes "rows = filter (\<lambda>m. start \<le> m_date m \<and> m_date m \<le> end) (measurement_tbl (engine s))"
    and "rows \<noteq> []"
  shows "\<exists>avg. round2 (Some (avg_double (engine s) (map m_tobs rows))) = Inr avg
           \<and> start_end_date start end s =
               (Inr (Json (JObj
                  [(''avg'', json_double avg),
                   (''end'', JStr end),
                   (''max'', JNum (Max (m_tobs ` set rows))),
                   (''min'', JNum (Min (m_tobs ` set rows))),
                   (''start'', JStr start)])), s)"
proof -
  from round2_double obtain avg
    where a: "round2 (Some (avg_double (engine s) (map m_tobs rows))) = Inr avg" by blast
  have ne: "map m_tobs rows \<noteq> []" using assms(2) by simp
  show ?thesis
    using a ne unfolding start_end_date_unfold assms(1) [symmetric]
    by (simp add: sql_avg_def sql_max_Max sql_min_Min json_num_def)
qed

section \<open>Well-formed dates\<close>














lemma ordered_desc_empty: "ordered_desc [] res \<Longrightarrow> res = []"
  by (simp add: ordered_desc_def)

lemma order_by_count_desc_legal:
  "ordered_desc groups (order_by_count_desc e groups)"
proof -
  have "sorted (map (\<lambda>g. - int (snd g)) (order_by_count_desc e groups))"
    unfolding order_by_count_desc_def by (rule sorted_sort_key)
  then have "sorted_wrt (\<lambda>a b. snd b \<le> snd a) (order_by_count_desc e groups)"
    by (simp add: sorted_map)
  then show ?thesis
    by (simp add: ordered_desc_def order_by_count_desc_def)
qed



lemma dates_year_app: "list_all iso_date (map m_date (measurement_tbl (engine year_app)))"
  by code_simp

section \<open>Text comparison, dicts and grouped counts\<close>

lemma text_after_prefix:
  assumes "length c = length d" "sfx \<noteq> []"
  shows "c @ sfx \<le> d \<longleftrightarrow> c < (d :: string)"
  using assms by (induction c d rule: list_induct2) auto

lemma length_isoformat_date: "length (isoformat_date dt) = 10"
  by (simp add: isoformat_date_def fmt04_def fmt02_def)

lemma iso_date_length: "iso_date d \<Longrightarrow> length d = 10"
  by (cases d rule: iso_date.cases) simp_all

text \<open>
  A well-formed date is ten characters long, and so is the date part of the text bound
  for a datetime; the time part after it is not empty. The date column is therefore at
  least the bound text exactly when it is strictly after the date part. (Only this is
  used of the time part: any non-empty rendering of midnight gives the same filter.)
\<close>

lemma bind_datetime_le:
  assumes "iso_date d"
  shows "bind_datetime cutoff \<le> d \<longleftrightarrow> isoformat_date cutoff < d"
  unfolding bind_datetime_def
  by (rule text_after_prefix) (simp_all add: length_isoformat_date iso_date_length [OF assms])

lemma filter_bind_datetime:
  assumes "list_all iso_date (map m_date ms)"
  shows "filter (\<lambda>m. P m \<and> bind_datetime cutoff \<le> m_date m) ms
       = filter (\<lambda>m. P m \<and> isoformat_date cutoff < m_date m) ms"
  using assms by (intro filter_cong refl) (simp add: list_all_iff bind_datetime_le)

lemma map_of_foldl_update:
  "map_of (foldl (\<lambda>d kv. AList.update (fst kv) (snd kv) d) d0 kvs) = map_of d0 ++ map_of (rev kvs)"
  by (induction kvs arbitrary: d0) (auto simp: update_conv' map_add_upd_left fun_eq_iff map_add_def split: option.splits)

lemma distinct_foldl_update:
  "distinct (map fst d0) \<Longrightarrow>
   distinct (map fst (foldl (\<lambda>d kv. AList.update (fst kv) (snd kv) d) d0 kvs))"
  by (induction kvs arbitrary: d0) (simp_all add: distinct_update)

lemma keys_foldl_update:
  "fst ` set (foldl (\<lambda>d kv. AList.update (fst kv) (snd kv) d) d0 kvs) = fst ` set d0 \<union> fst ` set kvs"
  by (induction kvs arbitrary: d0) (auto simp: dom_update)

lemma map_of_py_dict: "map_of (py_dict kvs) = map_of (rev kvs)"
  by (simp add: py_dict_def map_of_foldl_update)

lemma distinct_py_dict: "distinct (map fst (py_dict kvs))"
  by (simp add: py_dict_def distinct_foldl_update)

lemma keys_py_dict: "fst ` set (py_dict kvs) = fst ` set kvs"
  by (simp add: py_dict_def keys_foldl_update)

lemma map_of_last_row:
  "map_of (rev (map (\<lambda>m. (k m, f m)) rows)) d =
     (if filter (\<lambda>m. k m = d) rows = [] then None
      else Some (f (last (filter (\<lambda>m. k m = d) rows))))"
  by (induction rows rule: rev_induct) auto

lemma distinct_keys_sort_key:
  "distinct (map f (sort_key f xs)) = distinct (map f xs)"
  by (induction xs) (simp_all add: distinct_insort_key)

lemma map_of_sort_key:
  assumes "distinct (map fst xs)"
  shows "map_of (sort_key fst xs) = map_of xs"
  using assms by (simp add: map_of_inject_set distinct_keys_sort_key)

lemma group_by_station_count:
  "(st, n) \<in> set (group_by_station ms) \<Longrightarrow> n = length (filter (\<lambda>m. m_station m = st) ms)"
  by (auto simp: group_by_station_def)

lemma group_by_station_member:
  "st \<in> m_station ` set ms \<Longrightarrow>
   (st, length (filter (\<lambda>m. m_station m = st) ms)) \<in> set (group_by_station ms)"
  by (auto simp: group_by_station_def)

lemma ordered_desc_first_max:
  assumes "ordered_desc (group_by_station ms) (row # rest)"
  shows "snd row = length (filter (\<lambda>m. m_station m = fst row) ms)"
    and "length (filter (\<lambda>m. m_station m = st) ms) \<le> snd row"
proof -
  from assms have set_eq: "set (row # rest) = set (group_by_station ms)"
    and srt: "\<forall>x \<in> set rest. snd x \<le> snd row"
    by (simp_all add: ordered_desc_def)
  from set_eq have "(fst row, snd row) \<in> set (group_by_station ms)" by auto
  then show "snd row = length (filter (\<lambda>m. m_station m = fst row) ms)"
    by (rule group_by_station_count)
  show "length (filter (\<lambda>m. m_station m = st) ms) \<le> snd row"
  proof (cases "st \<in> m_station ` set ms")
    case True
    from group_by_station_member [OF this] set_eq
    have "(st, length (filter (\<lambda>m. m_station m = st) ms)) \<in> set (row # rest)" by simp
    with srt show ?thesis by auto
  next
    case False
    then have "filter (\<lambda>m. m_station m = st) ms = []"
      by (auto simp: filter_empty_conv)
    then show ?thesis by simp
  qed
qed

section \<open>The root route\<close>

lemma sublist_here: "prefix r c \<Longrightarrow> sublist r (c @ ys)"
  by (simp add: sublist_append)

lemma sublist_later: "sublist r ys \<Longrightarrow> sublist r (x @ ys)"
  by (simp add: sublist_append)

text \<open>
  C9. The root route is a constant: in every state it answers with the same static HTML
  document, which names each of the five other routes, and it returns the state as it got
  it (no session is opened, the store is not read).
\<close>

theorem homepage_static:
  "homepage s = (Inr (Html homepage_text), s)
   \<and> fst (homepage s) = fst (homepage s')
   \<and> sublist ''/api/v1.0/precipitation'' homepage_text
   \<and> sublist ''/api/v1.0/stations'' homepage_text
   \<and> sublist ''/api/v1.0/tobs'' homepage_text
   \<and> sublist ''/api/v1.0/start/'' homepage_text
   \<and> sublist ''/api/v1.0/end/'' homepage_text"
proof -
  have "sublist ''/api/v1.0/precipitation'' homepage_text"
    unfolding homepage_text_def
    by ((rule sublist_here, (simp; fail)) | rule sublist_later)+
  moreover have "sublist ''/api/v1.0/stations'' homepage_text"
    unfolding homepage_text_def
    by ((rule sublist_here, (simp; fail)) | rule sublist_later)+
  moreover have "sublist ''/api/v1.0/tobs'' homepage_text"
    unfolding homepage_text_def
    by ((rule sublist_here, (simp; fail)) | rule sublist_later)+
  moreover have "sublist ''/api/v1.0/start/'' homepage_text"
    unfolding homepage_text_def
    by ((rule sublist_here, (simp; fail)) | rule sublist_later)+
  moreover have "sublist ''/api/v1.0/end/'' homepage_text"
    unfolding homepage_text_def
    by ((rule sublist_here, (simp; fail)) | rule sublist_later)+
  ultimately show ?thesis
    by (simp add: homepage_def)
qed

section \<open>The stations route\<close>

text \<open>
  C5, as the code has it. The stations route answers with the array of the station
  codes of the station table, one string per row and in the order the store returns the
  rows, and leaves the state as it was. The array is as long as the table; it is as
  long as the number of distinct station codes exactly when no code is repeated.
\<close>

theorem all_stations_one_per_row:
  "\<exists>codes. all_stations s = (Inr (Json (JArr (map JStr codes))), s)
           \<and> codes = map s_station (station_tbl (engine s))
           \<and> length codes = length (station_tbl (engine s))
           \<and> (length codes = card (set codes)) = distinct codes"
proof -
  let ?codes = "map s_station (station_tbl (engine s))"
  have "all_stations s = (Inr (Json (JArr (map JStr ?codes))), s)"
    by (simp add: all_stations_unfold comp_def)
  moreover have "(length ?codes = card (set ?codes)) = distinct ?codes"
    using card_distinct [of ?codes] distinct_card [of ?codes] by auto
  ultimately show ?thesis by simp
qed

text \<open>
  C5, as the claim states it, fails: on a station table that names the code USC00519397
  twice the array has three entries for two distinct stations.
\<close>

theorem all_stations_repeated_code:
  "all_stations repeat_app =
     (Inr (Json (JArr [JStr ''USC00519397'', JStr ''USC00519281'', JStr ''USC00519397''])),
      repeat_app)
   \<and> card (set (map s_station (station_tbl (engine repeat_app)))) = 2"
proof -
  have "map (\<lambda>r. JStr (s_station r)) (station_tbl (engine repeat_app))
          = [JStr ''USC00519397'', JStr ''USC00519281'', JStr ''USC00519397'']"
    by (simp add: repeat_app_def)
  moreover have "card (set (map s_station (station_tbl (engine repeat_app)))) = 2"
    by code_simp
  ultimately show ?thesis
    by (simp add: all_stations_unfold)
qed

section \<open>The summary routes\<close>

text \<open>
  C6. A window without measurements: in \<open>year_app\<close> both 2016-08-23 and 2016-08-24 are
  dates of measurements, and the request from 2016-08-24 to 2016-08-23 matches none of
  them. The aggregates are \<^verbatim>\<open>None\<close>, \<^verbatim>\<open>round(None, 2)\<close> raises \<^verbatim>\<open>TypeError\<close>, and
  there is no output object to hold \<open>end\<close>.
\<close>

theorem start_end_date_empty_window_raises:
  "''2016-08-23'' \<in> set (map m_date (measurement_tbl (engine year_app)))
   \<and> ''2016-08-24'' \<in> set (map m_date (measurement_tbl (engine year_app)))
   \<and> start_end_date ''2016-08-24'' ''2016-08-23'' year_app = (Inl TypeError, year_app)"
proof -
  have "filter (\<lambda>m. ''2016-08-24'' \<le> m_date m \<and> m_date m \<le> ''2016-08-23'')
          (measurement_tbl (engine year_app)) = []"
    by (simp add: year_app_def)
  then have "start_end_date ''2016-08-24'' ''2016-08-23'' year_app = (Inl TypeError, year_app)"
    by (rule start_end_date_no_rows)
  then show ?thesis
    by (simp add: year_app_def)
qed

text \<open>
  C4. When no measurement matches, the aggregates are \<^verbatim>\<open>None\<close> and \<^verbatim>\<open>round(None, 2)\<close>
  raises \<^verbatim>\<open>TypeError\<close>: neither summary route produces a response with null fields.
\<close>

theorem summary_no_match_raises:
  "start_date ''2018-01-01'' year_app = (Inl TypeError, year_app)
   \<and> start_end_date ''2018-01-01'' ''2018-12-31'' year_app = (Inl TypeError, year_app)"
proof -
  have "filter (\<lambda>m. ''2018-01-01'' \<le> m_date m) (measurement_tbl (engine year_app)) = []"
    by (simp add: year_app_def)
  moreover have "filter (\<lambda>m. ''2018-01-01'' \<le> m_date m \<and> m_date m \<le> ''2018-12-31'')
                   (measurement_tbl (engine year_app)) = []"
    by (simp add: year_app_def)
  ultimately show ?thesis
    by (simp add: start_date_no_rows start_end_date_no_rows)
qed

section \<open>Sessions on the error paths\<close>

lemma precipitation_error_leaves_session:
  "fst (precipitation s) = Inl e \<Longrightarrow> snd (precipitation s) = Session s"
  unfolding precipitation_unfold by (auto split: sum.splits)

lemma tobs_error_leaves_session:
  "fst (tobs s) = Inl e \<Longrightarrow> snd (tobs s) = Session s"
  unfolding tobs_unfold by (auto split: sum.splits list.splits)

text \<open>
  C7. On an empty measurement table \<^verbatim>\<open>precipitation\<close> raises \<^verbatim>\<open>TypeError\<close> in
  \<^verbatim>\<open>strptime\<close> and \<^verbatim>\<open>tobs\<close> raises \<^verbatim>\<open>IndexError\<close> at \<^verbatim>\<open>most_active_stations[0]\<close>, both
  before \<^verbatim>\<open>session.close()\<close>: the session opened by the handler is still open.
\<close>

theorem session_left_open_on_error:
  "precipitation empty_app = (Inl TypeError, empty_app\<lparr>open_sessions := 1\<rparr>)
   \<and> tobs empty_app = (Inl IndexError, empty_app\<lparr>open_sessions := 1\<rparr>)"
proof -
  have "precipitation empty_app = (Inl TypeError, empty_app\<lparr>open_sessions := 1\<rparr>)"
    by (simp add: precipitation_unfold empty_app_def Session_def strptime_def)
  moreover have "tobs empty_app = (Inl IndexError, empty_app\<lparr>open_sessions := 1\<rparr>)"
    by (simp add: tobs_unfold empty_app_def Session_def group_by_station_def order_by_count_desc_def)
  ultimately show ?thesis by simp
qed

section \<open>What an answer depends on\<close>






section \<open>The day 365 days before the most recent one\<close>

text \<open>
  C1. In \<open>year_app\<close> the most recent date is 2017-08-23, and 365 days before it is
  2016-08-23, a date that has a measurement. The filter compares the date text with
  \<^verbatim>\<open>2016-08-23 00:00:00.000000\<close>, which is greater than \<^verbatim>\<open>2016-08-23\<close>: the answer has
  no key for that day. For 2016-08-24, a date with two rows, the value is the one of
  the later row (null).
\<close>

theorem precipitation_drops_cutoff_day:
  "sql_max (map m_date (measurement_tbl (engine year_app))) = Some ''2017-08-23''
   \<and> strptime (Some ''2017-08-23'') = Inr \<lparr>year = 2017, month = 8, day = 23\<rparr>
   \<and> minus_days \<lparr>year = 2017, month = 8, day = 23\<rparr> 365 = Inr \<lparr>year = 2016, month = 8, day = 23\<rparr>
   \<and> isoformat_date \<lparr>year = 2016, month = 8, day = 23\<rparr> = ''2016-08-23''
   \<and> ''2016-08-23'' \<in> set (map m_date (measurement_tbl (engine year_app)))
   \<and> fst (precipitation year_app) =
       Inr (Json (JObj [(''2016-08-24'', JNull), (''2017-08-23'', JNum (1 / 4))]))"
  by code_simp

text \<open>
  C2. In \<open>year_app\<close> the station with the most measurements is USC00519281; its most
  recent date is 2017-08-23 and it has a measurement on 2016-08-23, 365 days before.
  For the same reason as in C1 that measurement is not in the answer.
\<close>

theorem tobs_drops_cutoff_day:
  "order_by_count_desc (engine year_app) (group_by_station (measurement_tbl (engine year_app)))
     = [(''USC00519281'', 4), (''USC00519397'', 1)]
   \<and> sql_max (map m_date (filter (\<lambda>m. m_station m = ''USC00519281'')
                              (measurement_tbl (engine year_app)))) = Some ''2017-08-23''
   \<and> minus_days \<lparr>year = 2017, month = 8, day = 23\<rparr> 365 = Inr \<lparr>year = 2016, month = 8, day = 23\<rparr>
   \<and> isoformat_date \<lparr>year = 2016, month = 8, day = 23\<rparr> = ''2016-08-23''
   \<and> (''USC00519281'', ''2016-08-23'')
        \<in> set (map (\<lambda>m. (m_station m, m_date m)) (measurement_tbl (engine year_app)))
   \<and> fst (tobs year_app) =
       Inr (Json (JArr
         [JObj [(''date'', JStr ''2016-08-24''), (''temperature'', JNum 80)],
          JObj [(''date'', JStr ''2017-08-23''), (''temperature'', JNum 82)]]))"
  by code_simp

section \<open>The two last-year routes in general\<close>

text \<open>
  What \<^verbatim>\<open>precipitation\<close> returns whenever the most recent date parses and the day 365
  days before it exists: the keys, sorted and without repetition, are the dates of the
  measurements dated strictly after that day, and the value under a date is the
  precipitation (null when not recorded) of the last row the store returns for it. The
  session is closed again.
\<close>

lemma precipitation_answer:
  assumes "list_all iso_date (map m_date (measurement_tbl (engine s)))"
    and "strptime (sql_max (map m_date (measurement_tbl (engine s)))) = Inr recent"
    and "minus_days recent 365 = Inr cutoff"
    and "rows = filter (\<lambda>m. isoformat_date cutoff < m_date m) (measurement_tbl (engine s))"
  shows "\<exists>obj. precipitation s = (Inr (Json (JObj obj)), s)
           \<and> sorted (map fst obj) \<and> distinct (map fst obj)
           \<and> set (map fst obj) = m_date ` set rows
           \<and> (\<forall>d \<in> m_date ` set rows.
                 map_of obj d = Some (json_num (m_prcp (last (filter (\<lambda>m. m_date m = d) rows)))))"
proof -
  let ?kvs = "map (\<lambda>m. (m_date m, json_num (m_prcp m))) rows"
  let ?obj = "sort_key fst (py_dict ?kvs)"
  have f: "filter (\<lambda>m. bind_datetime cutoff \<le> m_date m) (measurement_tbl (engine s)) = rows"
    using filter_bind_datetime [OF assms(1), of "\<lambda>_. True" cutoff] assms(4) by simp
  have p: "precipitation s = (Inr (Json (JObj ?obj)), s)"
    by (simp add: precipitation_unfold assms(2,3) f json_dict_def)
  have s: "sorted (map fst ?obj)" by (rule sorted_sort_key)
  have d: "distinct (map fst ?obj)"
    by (simp add: distinct_keys_sort_key distinct_py_dict)
  have k: "set (map fst ?obj) = m_date ` set rows"
    by (simp add: keys_py_dict image_image)
  have m: "map_of ?obj = map_of (rev ?kvs)"
    by (simp add: map_of_sort_key distinct_py_dict map_of_py_dict)
  have v: "\<forall>d \<in> m_date ` set rows.
             map_of ?obj d = Some (json_num (m_prcp (last (filter (\<lambda>m. m_date m = d) rows))))"
    unfolding m map_of_last_row by (auto simp: filter_empty_conv)
  from p s d k v show ?thesis by blast
qed

lemma precipitation_answer_example:
  "\<exists>obj. precipitation year_app = (Inr (Json (JObj obj)), year_app)
         \<and> sorted (map fst obj) \<and> distinct (map fst obj)
         \<and> set (map fst obj) = {''2016-08-24'', ''2017-08-23''}
         \<and> map_of obj ''2016-08-24'' = Some JNull
         \<and> map_of obj ''2017-08-23'' = Some (JNum (1 / 4))"
proof -
  let ?rows =
    "[\<lparr>m_station = ''USC00519397'', m_date = ''2016-08-24'', m_prcp = Some (1 / 2), m_tobs = 79\<rparr>,
      \<lparr>m_station = ''USC00519281'', m_date = ''2016-08-24'', m_prcp = None, m_tobs = 80\<rparr>,
      \<lparr>m_station = ''USC00519281'', m_date = ''2017-08-23'', m_prcp = Some (1 / 4), m_tobs = 82\<rparr>]"
  note 1 = dates_year_app
  have 2: "strptime (sql_max (map m_date (measurement_tbl (engine year_app))))
             = Inr \<lparr>year = 2017, month = 8, day = 23\<rparr>"
    by code_simp
  have 3: "minus_days \<lparr>year = 2017, month = 8, day = 23\<rparr> 365
             = Inr \<lparr>year = 2016, month = 8, day = 23\<rparr>"
    by code_simp
  have 4: "?rows = filter (\<lambda>m. isoformat_date \<lparr>year = 2016, month = 8, day = 23\<rparr> < m_date m)
                     (measurement_tbl (engine year_app))"
    by code_simp
  from precipitation_answer [OF 1 2 3 4] obtain obj
    where "precipitation year_app = (Inr (Json (JObj obj)), year_app)"
      and "sorted (map fst obj)" and "distinct (map fst obj)"
      and "set (map fst obj) = m_date ` set ?rows"
      and v: "\<forall>d \<in> m_date ` set ?rows.
                map_of obj d = Some (json_num (m_prcp (last (filter (\<lambda>m. m_date m = d) ?rows))))"
    by blast
  moreover from v have "map_of obj ''2016-08-24'' = Some JNull"
    by (simp add: json_num_def)
  moreover from v have "map_of obj ''2017-08-23'' = Some (JNum (1 / 4))"
    by (simp add: json_num_def)
  ultimately show ?thesis
    by (intro exI [of _ obj]) (simp add: insert_commute)
qed

text \<open>
  What \<^verbatim>\<open>tobs\<close> returns on well-formed dates whenever the selected station's most
  recent date parses and the day 365 days before it exists: the station is the first of
  the engine's descending-count order, no station has more measurements, and the array
  holds one object per measurement of that station dated strictly after that day, in
  the store's order. The session is closed again.
\<close>

lemma tobs_answer:
  assumes "list_all iso_date (map m_date (measurement_tbl (engine s)))"
    and "order_by_count_desc (engine s) (group_by_station (measurement_tbl (engine s))) = row # rest"
    and "strptime (sql_max (map m_date
            (filter (\<lambda>m. m_station m = fst row) (measurement_tbl (engine s))))) = Inr recent"
    and "minus_days recent 365 = Inr cutoff"
  shows "tobs s =
           (Inr (Json (JArr
              (map (\<lambda>m. JObj [(''date'', JStr (m_date m)), (''temperature'', JNum (m_tobs m))])
                 (filter (\<lambda>m. m_station m = fst row \<and> isoformat_date cutoff < m_date m)
                    (measurement_tbl (engine s)))))), s)
         \<and> snd row = length (filter (\<lambda>m. m_station m = fst row) (measurement_tbl (engine s)))
         \<and> (\<forall>st. length (filter (\<lambda>m. m_station m = st) (measurement_tbl (engine s))) \<le> snd row)"
proof -
  have ord: "ordered_desc (group_by_station (measurement_tbl (engine s)))
               (order_by_count_desc (engine s) (group_by_station (measurement_tbl (engine s))))"
    by (rule order_by_count_desc_legal)
  note f = filter_bind_datetime [OF assms(1), of "\<lambda>m. m_station m = fst row" cutoff]
  have "tobs s =
           (Inr (Json (JArr
              (map (\<lambda>m. JObj [(''date'', JStr (m_date m)), (''temperature'', JNum (m_tobs m))])
                 (filter (\<lambda>m. m_station m = fst row \<and> isoformat_date cutoff < m_date m)
                    (measurement_tbl (engine s)))))), s)"
    by (simp add: tobs_unfold assms(2,3,4) f)
  with ordered_desc_first_max [OF ord [unfolded assms(2)]] show ?thesis by blast
qed

lemma tobs_answer_example:
  "tobs year_app =
     (Inr (Json (JArr
        [JObj [(''date'', JStr ''2016-08-24''), (''temperature'', JNum 80)],
         JObj [(''date'', JStr ''2017-08-23''), (''temperature'', JNum 82)]])), year_app)
   \<and> (\<forall>st. length (filter (\<lambda>m. m_station m = st) (measurement_tbl (engine year_app))) \<le> 4)"
proof -
  have 2: "order_by_count_desc (engine year_app)
             (group_by_station (measurement_tbl (engine year_app)))
           = (''USC00519281'', 4) # [(''USC00519397'', 1)]"
    by code_simp
  have 3: "strptime (sql_max (map m_date
              (filter (\<lambda>m. m_station m = fst (''USC00519281'', 4 :: nat))
                 (measurement_tbl (engine year_app)))))
           = Inr \<lparr>year = 2017, month = 8, day = 23\<rparr>"
    by code_simp
  have 4: "minus_days \<lparr>year = 2017, month = 8, day = 23\<rparr> 365
             = Inr \<lparr>year = 2016, month = 8, day = 23\<rparr>"
    by code_simp
  have 5: "map (\<lambda>m. JObj [(''date'', JStr (m_date m)), (''temperature'', JNum (m_tobs m))])
             (filter (\<lambda>m. m_station m = fst (''USC00519281'', 4 :: nat)
                        \<and> isoformat_date \<lparr>year = 2016, month = 8, day = 23\<rparr> < m_date m)
                (measurement_tbl (engine year_app)))
           = [JObj [(''date'', JStr ''2016-08-24''), (''temperature'', JNum 80)],
              JObj [(''date'', JStr ''2017-08-23''), (''temperature'', JNum 82)]]"
    by code_simp
  show ?thesis
    using tobs_answer [OF dates_year_app 2 3 4] unfolding 5 by simp
qed

section \<open>The precondition of the two last-year routes\<close>










end
